theory Spec2Isabelle
  imports Complex_Main "HOL-Library.Word" "HOL-Library.Multiset"
begin

section \<open>Strings\<close>

text \<open>
  Go strings are byte sequences; they are modelled as \<open>string\<close> (a list of 8-bit
  characters). \<open>strings.ToLower\<close> and \<open>strings.EqualFold\<close> are modelled on the
  ASCII letters (\<open>'A'..'Z'\<close> gets \<open>'a' - 'A'\<close> added, as Go's ASCII fast path does);
  every other byte is left as it is, where Go would decode UTF-8 and apply the Unicode
  case tables.
\<close>

definition lowerChar :: "char \<Rightarrow> char" where
  "lowerChar c =
     (let n = of_char c :: nat in if 65 \<le> n \<and> n \<le> 90 then char_of (n + 32) else c)"

definition ToLower :: "string \<Rightarrow> string" where
  "ToLower s = map lowerChar s"

definition EqualFold :: "string \<Rightarrow> string \<Rightarrow> bool" where
  "EqualFold s t = (ToLower s = ToLower t)"

definition HasPrefix :: "string \<Rightarrow> string \<Rightarrow> bool" where
  "HasPrefix s pre = (length pre \<le> length s \<and> take (length pre) s = pre)"

text \<open>\<open>strings.Contains(s, substr)\<close>: \<open>substr\<close> occurs in \<open>s\<close> at some offset.\<close>

fun Contains :: "string \<Rightarrow> string \<Rightarrow> bool" where
  "Contains [] substr = (substr = [])"
| "Contains (c # cs) substr = (HasPrefix (c # cs) substr \<or> Contains cs substr)"

text \<open>
  \<open>strings.Split(s, sep)\<close> for a separator of at least one byte \<open>s0 # srest\<close>: the
  pieces between the non-overlapping occurrences of the separator, found from the
  left; \<open>cur\<close> is the piece being read. The result always has at least one piece
  (\<open>Split("", ", ")\<close> is \<open>[""]\<close>). For the empty separator Go explodes the string
  into its characters.
\<close>

fun splitOn :: "char \<Rightarrow> string \<Rightarrow> string \<Rightarrow> string \<Rightarrow> string list" where
  "splitOn s0 srest cur [] = [cur]"
| "splitOn s0 srest cur (c # cs) =
     (if c = s0 \<and> HasPrefix cs srest
      then cur # splitOn s0 srest [] (drop (length srest) cs)
      else splitOn s0 srest (cur @ [c]) cs)"

definition Split :: "string \<Rightarrow> string \<Rightarrow> string list" where
  "Split s sep = (case sep of [] \<Rightarrow> map (\<lambda>c. [c]) s | s0 # srest \<Rightarrow> splitOn s0 srest [] s)"

section \<open>Term Expander: \<open>getGenreSearchTerms\<close>\<close>

text \<open>The map literal \<open>genreTerms\<close> of the function, as an association list.\<close>

definition genreTerms :: "(string \<times> string list) list" where
  "genreTerms =
    [(''action'',    [''action'', ''adventure'', ''superhero'', ''martial arts'', ''spy'']),
     (''comedy'',    [''comedy'', ''funny'', ''humor'', ''romantic comedy'', ''parody'']),
     (''drama'',     [''drama'', ''emotional'', ''family'', ''biographical'', ''historical'']),
     (''horror'',    [''horror'', ''scary'', ''thriller'', ''supernatural'', ''zombie'']),
     (''sci-fi'',    [''science fiction'', ''sci-fi'', ''space'', ''future'', ''alien'']),
     (''romance'',   [''romance'', ''love'', ''romantic'', ''wedding'', ''relationship'']),
     (''thriller'',  [''thriller'', ''suspense'', ''mystery'', ''crime'', ''psychological'']),
     (''animation'', [''animation'', ''animated'', ''cartoon'', ''pixar'', ''disney'']),
     (''fantasy'',   [''fantasy'', ''magic'', ''wizard'', ''medieval'', ''adventure'']),
     (''crime'',     [''crime'', ''gangster'', ''mafia'', ''detective'', ''police''])]"

definition getGenreSearchTerms :: "string \<Rightarrow> string list" where
  "getGenreSearchTerms genre =
     (case map_of genreTerms (ToLower genre) of
        None \<Rightarrow> [genre, ''movie'', ''film'']
      | Some terms \<Rightarrow> terms)"

section \<open>Data model (\<open>models/movie.go\<close>)\<close>

text \<open>
  The structs of the package, with their field names. Of the 28 string fields of
  \<open>OMDbResponse\<close> the record keeps the ones that the service functions read; several
  structs share field names, which are therefore written qualified
  (\<open>MovieBrief.Title\<close>, \<open>OMDbResponse.Title\<close>).
\<close>

record OMDbResponse =
  Title :: string
  Year :: string
  Genre :: string
  Director :: string
  Actors :: string
  Plot :: string
  ImdbRating :: string
  ImdbID :: string
  Response :: string
  Error :: string

record SearchResult =
  Title :: string
  Year :: string
  ImdbID :: string
  Type :: string
  Poster :: string

record SearchResponse =
  Search :: "SearchResult list"
  TotalResults :: string
  Response :: string
  Error :: string

record MovieBrief =
  Title :: string
  Year :: string
  ImdbRating :: string
  Genre :: string
  Director :: string
  Plot :: string

record RecommendationsByCategory =
  GenreBased :: "MovieBrief list"
  DirectorBased :: "MovieBrief list"
  ActorBased :: "MovieBrief list"

record RecommendationsResponse =
  FavoriteMovie :: string
  Recommendations :: RecommendationsByCategory

section \<open>The platform: numbers, sorting and the upstream API\<close>

text \<open>
  A \<open>float64\<close> as far as \<open>>\<close> can tell: not-a-number, the two infinities, or a
  finite value (a rational; both zeros are \<open>Fin 0\<close>). \<open>gt64 a b\<close> is Go's \<open>a > b\<close>,
  false whenever an operand is NaN.
\<close>

datatype float64 = NaN | NegInf | Fin rat | PosInf

fun gt64 :: "float64 \<Rightarrow> float64 \<Rightarrow> bool" where
  "gt64 NaN b = False"
| "gt64 a NaN = False"
| "gt64 NegInf b = False"
| "gt64 (Fin x) NegInf = True"
| "gt64 (Fin x) (Fin y) = (y < x)"
| "gt64 (Fin x) PosInf = False"
| "gt64 PosInf PosInf = False"
| "gt64 PosInf b = True"

text \<open>
  What one HTTP exchange with the upstream API can come to, in the order of the three
  checks of \<open>makeRequest\<close> and \<open>SearchMovies\<close>: the request fails, reading the body
  fails, the body is not the expected JSON, or it decodes (absent JSON fields decode
  to the empty string). The strings are the texts of the underlying Go errors.
\<close>

datatype 'a reply = RequestFailed string | ReadFailed string | ParseFailed string | Decoded 'a

text \<open>
  What a Go function yields instead of a value: an \<open>error\<close> made by \<open>fmt.Errorf\<close>,
  kept as its message, or a run-time panic.
\<close>

datatype failure = Errorf string | Panic string

text \<open>
  Everything the service takes from outside the repository. \<open>ParseFloat s\<close> is the
  number returned by \<open>strconv.ParseFloat(s, 64)\<close>; every call site discards the error,
  and a syntax error comes with the number 0. \<open>sortSlice less xs\<close> is the slice after
  \<open>sort.Slice(xs, less)\<close>, with \<open>less\<close> taken on elements. \<open>getDetails title\<close> is
  the exchange for \<open>?t=title&plot=full\<close>, \<open>getSearch query page\<close> the one for
  \<open>?s=query&type=movie\<close> with the \<open>page\<close> parameter when there is one. Both change a
  world \<open>'w\<close> that the model threads through every call in program order, so that the
  upstream API may answer the same request differently each time.
\<close>

record 'w platform =
  ParseFloat :: "string \<Rightarrow> float64"
  sortSlice :: "(MovieBrief \<Rightarrow> MovieBrief \<Rightarrow> bool) \<Rightarrow> MovieBrief list \<Rightarrow> MovieBrief list"
  getDetails :: "string \<Rightarrow> 'w \<Rightarrow> OMDbResponse reply \<times> 'w"
  getSearch :: "string \<Rightarrow> int option \<Rightarrow> 'w \<Rightarrow> SearchResponse reply \<times> 'w"

section \<open>Upstream client\<close>

definition makeRequest :: "'w platform \<Rightarrow> string \<Rightarrow> 'w \<Rightarrow> (failure + OMDbResponse) \<times> 'w" where
  "makeRequest P title w =
     (case getDetails P title w of
        (RequestFailed e, w') \<Rightarrow> (Inl (Errorf (''failed to make request: '' @ e)), w')
      | (ReadFailed e, w') \<Rightarrow> (Inl (Errorf (''failed to read response: '' @ e)), w')
      | (ParseFailed e, w') \<Rightarrow> (Inl (Errorf (''failed to parse response: '' @ e)), w')
      | (Decoded omdbResp, w') \<Rightarrow>
          if OMDbResponse.Response omdbResp = ''False''
          then (Inl (Errorf (''OMDb API error: '' @ OMDbResponse.Error omdbResp)), w')
          else (Inr omdbResp, w'))"

definition GetMovieByTitle :: "'w platform \<Rightarrow> string \<Rightarrow> 'w \<Rightarrow> (failure + OMDbResponse) \<times> 'w" where
  "GetMovieByTitle P title w = makeRequest P title w"

definition SearchMovies ::
  "'w platform \<Rightarrow> string \<Rightarrow> int \<Rightarrow> 'w \<Rightarrow> (failure + SearchResponse) \<times> 'w" where
  "SearchMovies P query page w =
     (case getSearch P query (if page > 0 then Some page else None) w of
        (RequestFailed e, w') \<Rightarrow> (Inl (Errorf (''failed to make request: '' @ e)), w')
      | (ReadFailed e, w') \<Rightarrow> (Inl (Errorf (''failed to read response: '' @ e)), w')
      | (ParseFailed e, w') \<Rightarrow> (Inl (Errorf (''failed to parse response: '' @ e)), w')
      | (Decoded searchResp, w') \<Rightarrow> (Inr searchResp, w'))"

section \<open>Candidate Collector: \<open>getMoviesExcluding\<close>\<close>

text \<open>
  The two variables of the collecting loops, \<open>movies\<close> and \<open>movieSet\<close> (a
  \<open>map[string]bool\<close> that only ever stores \<open>true\<close>: the set of its keys), and one
  ghost field that the source does not have: \<open>taken\<close> lists, in the order of
  \<open>movies\<close>, the search hit that each MovieBrief was appended for. A MovieBrief has
  no identifier field, so a statement about identifiers is a statement about \<open>taken\<close>.
\<close>

record collected =
  movies :: "MovieBrief list"
  movieSet :: "string set"
  taken :: "SearchResult list"

definition noneCollected :: collected where
  "noneCollected = \<lparr>movies = [], movieSet = {}, taken = []\<rparr>"

text \<open>The MovieBrief literal that both collecting loops build from the fetched record.\<close>

definition briefOf :: "OMDbResponse \<Rightarrow> MovieBrief" where
  "briefOf movieDetails =
     \<lparr>MovieBrief.Title = OMDbResponse.Title movieDetails,
      Year = OMDbResponse.Year movieDetails,
      ImdbRating = OMDbResponse.ImdbRating movieDetails,
      Genre = OMDbResponse.Genre movieDetails,
      Director = OMDbResponse.Director movieDetails,
      Plot = OMDbResponse.Plot movieDetails\<rparr>"

definition append_movie :: "collected \<Rightarrow> SearchResult \<Rightarrow> OMDbResponse \<Rightarrow> collected" where
  "append_movie a result movieDetails =
     \<lparr>movies = movies a @ [briefOf movieDetails],
      movieSet = insert (SearchResult.ImdbID result) (movieSet a),
      taken = taken a @ [result]\<rparr>"

text \<open>The \<open>switch searchType\<close>; \<open>matches\<close> stays false for any other search type.\<close>

definition matches :: "string \<Rightarrow> string \<Rightarrow> OMDbResponse \<Rightarrow> bool" where
  "matches searchType searchTerm movieDetails =
     (if searchType = ''genre''
        then Contains (ToLower (OMDbResponse.Genre movieDetails)) (ToLower searchTerm)
      else if searchType = ''director''
        then Contains (ToLower (OMDbResponse.Director movieDetails)) (ToLower searchTerm)
      else if searchType = ''actor''
        then Contains (ToLower (OMDbResponse.Actors movieDetails)) (ToLower searchTerm)
      else False)"

text \<open>
  The loop over \<open>searchResp.Search\<close>. The flag of the result says that the function
  returned from inside the loop (\<open>return movies, nil\<close>). The limit is a Go \<open>int\<close>
  that is only compared, never computed with, and is modelled as \<open>int\<close>.
\<close>

fun excludingHits ::
  "'w platform \<Rightarrow> string \<Rightarrow> string \<Rightarrow> string \<Rightarrow> int \<Rightarrow> SearchResult list \<Rightarrow> collected \<Rightarrow> 'w
    \<Rightarrow> (bool \<times> collected) \<times> 'w" where
  "excludingHits P searchTerm searchType excludeTitle limit [] a w = ((False, a), w)"
| "excludingHits P searchTerm searchType excludeTitle limit (result # rest) a w =
     (if SearchResult.ImdbID result \<in> movieSet a \<or> EqualFold (SearchResult.Title result) excludeTitle
      then excludingHits P searchTerm searchType excludeTitle limit rest a w
      else
        (case GetMovieByTitle P (SearchResult.Title result) w of
           (Inl err, w') \<Rightarrow> excludingHits P searchTerm searchType excludeTitle limit rest a w'
         | (Inr movieDetails, w') \<Rightarrow>
             if OMDbResponse.Response movieDetails = ''False''
             then excludingHits P searchTerm searchType excludeTitle limit rest a w'
             else if matches searchType searchTerm movieDetails
             then
               (if gt64 (ParseFloat P (OMDbResponse.ImdbRating movieDetails)) (Fin 0)
                then
                  (let a' = append_movie a result movieDetails in
                   if int (length (movies a')) \<ge> limit then ((True, a'), w')
                   else excludingHits P searchTerm searchType excludeTitle limit rest a' w')
                else excludingHits P searchTerm searchType excludeTitle limit rest a w')
             else excludingHits P searchTerm searchType excludeTitle limit rest a w'))"

text \<open>The loop \<open>for page := 1; page <= 2; page++\<close>, over the pages still to visit.\<close>

fun excludingPages ::
  "'w platform \<Rightarrow> string \<Rightarrow> string \<Rightarrow> string \<Rightarrow> int \<Rightarrow> int list \<Rightarrow> collected \<Rightarrow> 'w
    \<Rightarrow> collected \<times> 'w" where
  "excludingPages P searchTerm searchType excludeTitle limit [] a w = (a, w)"
| "excludingPages P searchTerm searchType excludeTitle limit (page # pages) a w =
     (case SearchMovies P searchTerm page w of
        (Inl err, w') \<Rightarrow> excludingPages P searchTerm searchType excludeTitle limit pages a w'
      | (Inr searchResp, w') \<Rightarrow>
          if SearchResponse.Response searchResp = ''False''
          then excludingPages P searchTerm searchType excludeTitle limit pages a w'
          else
            (case excludingHits P searchTerm searchType excludeTitle limit
                    (Search searchResp) a w' of
               ((True, a'), w'') \<Rightarrow> (a', w'')
             | ((False, a'), w'') \<Rightarrow>
                 excludingPages P searchTerm searchType excludeTitle limit pages a' w''))"

text \<open>
  The body of \<open>getMoviesExcluding\<close>, with the collected state it ends in;
  \<open>getMoviesExcluding\<close> returns its \<open>movies\<close> and a nil error.
\<close>

definition excludingRun ::
  "'w platform \<Rightarrow> string \<Rightarrow> string \<Rightarrow> string \<Rightarrow> int \<Rightarrow> 'w \<Rightarrow> collected \<times> 'w" where
  "excludingRun P searchTerm searchType excludeTitle limit w =
     excludingPages P searchTerm searchType excludeTitle limit [1, 2] noneCollected w"

definition getMoviesExcluding ::
  "'w platform \<Rightarrow> string \<Rightarrow> string \<Rightarrow> string \<Rightarrow> int \<Rightarrow> 'w \<Rightarrow> (failure + MovieBrief list) \<times> 'w" where
  "getMoviesExcluding P searchTerm searchType excludeTitle limit w =
     (case excludingRun P searchTerm searchType excludeTitle limit w of
        (a, w') \<Rightarrow> (Inr (movies a), w'))"

section \<open>Ranker: \<open>sortMoviesByRating\<close>\<close>

text \<open>The \<open>less\<close> closure handed to \<open>sort.Slice\<close>: \<open>ratingI > ratingJ\<close>.\<close>

definition ratingOf :: "'w platform \<Rightarrow> MovieBrief \<Rightarrow> float64" where
  "ratingOf P m = ParseFloat P (MovieBrief.ImdbRating m)"

definition ratingLess :: "'w platform \<Rightarrow> MovieBrief \<Rightarrow> MovieBrief \<Rightarrow> bool" where
  "ratingLess P mi mj = gt64 (ratingOf P mi) (ratingOf P mj)"

definition sortMoviesByRating :: "'w platform \<Rightarrow> MovieBrief list \<Rightarrow> MovieBrief list" where
  "sortMoviesByRating P ms = sortSlice P (ratingLess P) ms"

section \<open>Recommendation Orchestrator: \<open>GetRecommendations\<close>\<close>

text \<open>The helper \<open>min\<close> of the package.\<close>

definition min_int :: "int \<Rightarrow> int \<Rightarrow> int" where
  "min_int a b = (if a < b then a else b)"

text \<open>
  The three facet loops of \<open>GetRecommendations\<close> are one loop text with another
  search type and another field each; \<open>facetLoop\<close> is that loop, over the values
  still to visit, with the facet list built so far.
\<close>

fun facetLoop ::
  "'w platform \<Rightarrow> string \<Rightarrow> string \<Rightarrow> string list \<Rightarrow> MovieBrief list \<Rightarrow> 'w
    \<Rightarrow> MovieBrief list \<times> 'w" where
  "facetLoop P searchType excludeTitle [] facet w = (facet, w)"
| "facetLoop P searchType excludeTitle (v # vs) facet w =
     (if int (length facet) \<ge> 20 then (facet, w)
      else
        (case getMoviesExcluding P v searchType excludeTitle (20 - int (length facet)) w of
           (Inl err, w') \<Rightarrow> facetLoop P searchType excludeTitle vs facet w'
         | (Inr found, w') \<Rightarrow> facetLoop P searchType excludeTitle vs (facet @ found) w'))"

text \<open>
  \<open>GetRecommendations\<close> after the seed lookup: the three facet loops, over the
  genres, the directors and the first three actors of the seed, and the three sorts.
\<close>

definition facets ::
  "'w platform \<Rightarrow> OMDbResponse \<Rightarrow> 'w \<Rightarrow> RecommendationsByCategory \<times> 'w" where
  "facets P movieDetails w1 =
     (let title = OMDbResponse.Title movieDetails;
          genres = Split (OMDbResponse.Genre movieDetails) '', '';
          (genreBased, w2) = facetLoop P ''genre'' title genres [] w1;
          directors = Split (OMDbResponse.Director movieDetails) '', '';
          (directorBased, w3) = facetLoop P ''director'' title directors [] w2;
          actors = Split (OMDbResponse.Actors movieDetails) '', '';
          (actorBased, w4) =
            facetLoop P ''actor'' title
              (take (nat (min_int 3 (int (length actors)))) actors) [] w3
      in (\<lparr>GenreBased = sortMoviesByRating P genreBased,
           DirectorBased = sortMoviesByRating P directorBased,
           ActorBased = sortMoviesByRating P actorBased\<rparr>, w4))"

definition GetRecommendations ::
  "'w platform \<Rightarrow> string \<Rightarrow> 'w \<Rightarrow> (failure + RecommendationsResponse) \<times> 'w" where
  "GetRecommendations P favoriteMovie w =
     (case GetMovieByTitle P favoriteMovie w of
        (Inl err, w1) \<Rightarrow> (Inl (Errorf (''favorite movie not found: '' @ favoriteMovie)), w1)
      | (Inr movieDetails, w1) \<Rightarrow>
          if OMDbResponse.Response movieDetails = ''False''
          then (Inl (Errorf (''favorite movie not found: '' @ favoriteMovie)), w1)
          else
            (case facets P movieDetails w1 of
               (byCategory, w4) \<Rightarrow>
                 (Inr \<lparr>FavoriteMovie = OMDbResponse.Title movieDetails,
                       Recommendations = byCategory\<rparr>, w4)))"

text \<open>
  The handler of \<open>GET /api/recommendations\<close>, as the HTTP status it answers with.
  A panic below the handler is answered with 500 by the recovery middleware of
  \<open>gin.Default()\<close>.
\<close>

definition GetRecommendations_handler :: "'w platform \<Rightarrow> string \<Rightarrow> 'w \<Rightarrow> nat \<times> 'w" where
  "GetRecommendations_handler P favoriteMovie w =
     (if favoriteMovie = [] then (400, w)
      else
        (case GetRecommendations P favoriteMovie w of
           (Inl (Errorf msg), w') \<Rightarrow> if Contains msg ''not found'' then (404, w') else (500, w')
         | (Inl (Panic msg), w') \<Rightarrow> (500, w')
         | (Inr recommendations, w') \<Rightarrow> (200, w')))"

section \<open>Genre listing: \<open>GetMoviesByGenre\<close>\<close>

text \<open>
  Go's \<open>int\<close> is taken to be 64 bits wide: \<open>int64 x\<close> is the value that the
  mathematical result \<open>x\<close> of an \<open>int\<close> operation wraps to.
\<close>

definition int64 :: "int \<Rightarrow> int" where
  "int64 x = sint (word_of_int x :: 64 word)"

text \<open>
  The loop over \<open>searchResp.Search\<close>; its \<open>break\<close> leaves this loop only, so the
  result carries no flag.
\<close>

fun genreHits ::
  "'w platform \<Rightarrow> string \<Rightarrow> int \<Rightarrow> SearchResult list \<Rightarrow> collected \<Rightarrow> 'w \<Rightarrow> collected \<times> 'w" where
  "genreHits P genre limit [] a w = (a, w)"
| "genreHits P genre limit (result # rest) a w =
     (if SearchResult.ImdbID result \<in> movieSet a then genreHits P genre limit rest a w
      else
        (case GetMovieByTitle P (SearchResult.Title result) w of
           (Inl err, w') \<Rightarrow> genreHits P genre limit rest a w'
         | (Inr movieDetails, w') \<Rightarrow>
             if OMDbResponse.Response movieDetails = ''False''
             then genreHits P genre limit rest a w'
             else if Contains (ToLower (OMDbResponse.Genre movieDetails)) (ToLower genre)
             then
               (if gt64 (ParseFloat P (OMDbResponse.ImdbRating movieDetails)) (Fin 0)
                then
                  (let a' = append_movie a result movieDetails in
                   if int (length (movies a')) \<ge> int64 (limit * 2) then (a', w')
                   else genreHits P genre limit rest a' w')
                else genreHits P genre limit rest a w')
             else genreHits P genre limit rest a w'))"

text \<open>The loop \<open>for page := 1; page <= 3; page++\<close>, over the pages still to visit.\<close>

fun genrePages ::
  "'w platform \<Rightarrow> string \<Rightarrow> int \<Rightarrow> string \<Rightarrow> int list \<Rightarrow> collected \<Rightarrow> 'w \<Rightarrow> collected \<times> 'w" where
  "genrePages P genre limit term [] a w = (a, w)"
| "genrePages P genre limit term (page # pages) a w =
     (case SearchMovies P term page w of
        (Inl err, w') \<Rightarrow> genrePages P genre limit term pages a w'
      | (Inr searchResp, w') \<Rightarrow>
          if SearchResponse.Response searchResp = ''False''
          then genrePages P genre limit term pages a w'
          else
            (case genreHits P genre limit (Search searchResp) a w' of
               (a', w'') \<Rightarrow> genrePages P genre limit term pages a' w''))"

text \<open>The loop over \<open>searchTerms\<close>, with its test at the head of each round.\<close>

fun genreSearch ::
  "'w platform \<Rightarrow> string \<Rightarrow> int \<Rightarrow> string list \<Rightarrow> collected \<Rightarrow> 'w \<Rightarrow> collected \<times> 'w" where
  "genreSearch P genre limit [] a w = (a, w)"
| "genreSearch P genre limit (term # terms) a w =
     (if int (length (movies a)) \<ge> int64 (limit * 2) then (a, w)
      else
        (case genrePages P genre limit term [1, 2, 3] a w of
           (a', w') \<Rightarrow> genreSearch P genre limit terms a' w'))"

text \<open>
  \<open>allMovies[:limit]\<close> panics when \<open>limit\<close> is negative; the test before it lets
  it run whenever the slice is longer than \<open>limit\<close>.
\<close>

definition GetMoviesByGenre ::
  "'w platform \<Rightarrow> string \<Rightarrow> int \<Rightarrow> 'w \<Rightarrow> (failure + MovieBrief list) \<times> 'w" where
  "GetMoviesByGenre P genre limit w =
     (case genreSearch P genre limit (getGenreSearchTerms genre) noneCollected w of
        (a, w') \<Rightarrow>
          (let allMovies = sortSlice P (ratingLess P) (movies a) in
           if int (length allMovies) > limit
           then
             (if limit < 0 then (Inl (Panic ''slice bounds out of range''), w')
              else (Inr (take (nat limit) allMovies), w'))
           else (Inr allMovies, w')))"

section \<open>Observing the upstream calls\<close>

text \<open>
  Not part of the service: \<open>traced P\<close> is the platform \<open>P\<close> with a log of the upstream
  requests beside its world, in the order in which they are issued.
\<close>

datatype call = SearchCall string "int option" | DetailsCall string

definition traced :: "'w platform \<Rightarrow> ('w \<times> call list) platform" where
  "traced P =
     \<lparr>ParseFloat = ParseFloat P,
      sortSlice = sortSlice P,
      getDetails = (\<lambda>title (w, calls).
         case getDetails P title w of (r, w') \<Rightarrow> (r, (w', calls @ [DetailsCall title]))),
      getSearch = (\<lambda>query page (w, calls).
         case getSearch P query page w of (r, w') \<Rightarrow> (r, (w', calls @ [SearchCall query page])))\<rparr>"

text \<open>
  The handler of \<open>GET /api/movie\<close>, as the HTTP status it answers with; it is the
  sibling of \<open>GetRecommendations_handler\<close> that reads the error of \<open>makeRequest\<close>
  itself.
\<close>

definition GetMovieDetails_handler :: "'w platform \<Rightarrow> string \<Rightarrow> 'w \<Rightarrow> nat \<times> 'w" where
  "GetMovieDetails_handler P title w =
     (if title = [] then (400, w)
      else
        (case GetMovieByTitle P title w of
           (Inl (Errorf msg), w') \<Rightarrow>
             if Contains msg ''not found'' \<or> Contains msg ''Movie not found''
             then (404, w') else (500, w')
         | (Inl (Panic msg), w') \<Rightarrow> (500, w')
         | (Inr movieData, w') \<Rightarrow> (200, w')))"

section \<open>What the service may assume of \<open>sort.Slice\<close>\<close>

text \<open>
  \<open>sort.Slice\<close> belongs to the Go library. Its documentation asks for a \<open>less\<close>
  that is a transitive ordering whose "neither is less" is transitive too, promises
  the elements in an order that \<open>less\<close> does not contradict, and says that the sort
  is not guaranteed to be stable. Whatever \<open>less\<close> is, the slice is only permuted.
\<close>

definition strictWeakOrder :: "('a \<Rightarrow> 'a \<Rightarrow> bool) \<Rightarrow> 'a set \<Rightarrow> bool" where
  "strictWeakOrder lt S =
     ((\<forall>a\<in>S. \<not> lt a a)
      \<and> (\<forall>a\<in>S. \<forall>b\<in>S. \<forall>c\<in>S. lt a b \<and> lt b c \<longrightarrow> lt a c)
      \<and> (\<forall>a\<in>S. \<forall>b\<in>S. \<forall>c\<in>S. \<not> lt a b \<and> \<not> lt b c \<longrightarrow> \<not> lt a c))"

definition sortSliceContract :: "(('a \<Rightarrow> 'a \<Rightarrow> bool) \<Rightarrow> 'a list \<Rightarrow> 'a list) \<Rightarrow> bool" where
  "sortSliceContract srt =
     (\<forall>lt xs. mset (srt lt xs) = mset xs
        \<and> (strictWeakOrder lt (set xs) \<longrightarrow> sorted_wrt (\<lambda>a b. \<not> lt b a) (srt lt xs)))"


text \<open>
  Two sorts that keep the contract. \<open>insertionSort\<close> moves each element left past
  the elements it must sort before, and so keeps equal elements in their order;
  \<open>reversingSort\<close> leaves equal elements in the opposite order.
\<close>

fun insertSorted :: "('a \<Rightarrow> 'a \<Rightarrow> bool) \<Rightarrow> 'a \<Rightarrow> 'a list \<Rightarrow> 'a list" where
  "insertSorted lt x [] = [x]"
| "insertSorted lt x (y # ys) = (if lt x y then x # y # ys else y # insertSorted lt x ys)"

definition insertionSort :: "('a \<Rightarrow> 'a \<Rightarrow> bool) \<Rightarrow> 'a list \<Rightarrow> 'a list" where
  "insertionSort lt xs = foldl (\<lambda>sorted x. insertSorted lt x sorted) [] xs"


section \<open>Example upstreams\<close>

text \<open>
  \<open>decimalRating\<close> stands for \<open>strconv.ParseFloat\<close> in the examples, whose rating
  texts are \<open>digits.digits\<close> or \<open>N/A\<close>: on a text of digits with at most one point it
  is the decimal value (Go rounds it to the nearest \<open>float64\<close>, which keeps the
  order of the ratings used here), and on a text with any other character, where
  Go reports a syntax error, it is 0.
\<close>

definition digitOf :: "char \<Rightarrow> nat option" where
  "digitOf c =
     (let n = of_char c :: nat in if 48 \<le> n \<and> n \<le> 57 then Some (n - 48) else None)"

fun digitsValue :: "nat \<Rightarrow> string \<Rightarrow> nat option" where
  "digitsValue acc [] = Some acc"
| "digitsValue acc (c # cs) =
     (case digitOf c of None \<Rightarrow> None | Some d \<Rightarrow> digitsValue (10 * acc + d) cs)"

definition decimalRating :: "string \<Rightarrow> float64" where
  "decimalRating s =
     (let ip = takeWhile (\<lambda>c. c \<noteq> CHR ''.'') s; fp = drop (length ip + 1) s in
      if ip = [] \<and> fp = [] then Fin 0
      else
        (case (digitsValue 0 ip, digitsValue 0 fp) of
           (Some i, Some f) \<Rightarrow> Fin (of_nat i + of_nat f / 10 ^ length fp)
         | _ \<Rightarrow> Fin 0))"

text \<open>
  An upstream that answers every request from two fixed tables and has no state.
\<close>

definition fixedPlatform ::
  "((MovieBrief \<Rightarrow> MovieBrief \<Rightarrow> bool) \<Rightarrow> MovieBrief list \<Rightarrow> MovieBrief list)
    \<Rightarrow> (string \<Rightarrow> int option \<Rightarrow> SearchResponse reply) \<Rightarrow> (string \<Rightarrow> OMDbResponse reply)
    \<Rightarrow> unit platform" where
  "fixedPlatform srt searches details =
     \<lparr>ParseFloat = decimalRating,
      sortSlice = srt,
      getDetails = (\<lambda>title w. (details title, w)),
      getSearch = (\<lambda>query page w. (searches query page, w))\<rparr>"

definition hit :: "string \<Rightarrow> string \<Rightarrow> SearchResult" where
  "hit title imdbID =
     \<lparr>SearchResult.Title = title, Year = [], ImdbID = imdbID, Type = ''movie'', Poster = []\<rparr>"

definition hitsPage :: "SearchResult list \<Rightarrow> SearchResponse reply" where
  "hitsPage hs =
     Decoded \<lparr>Search = hs, TotalResults = [], Response = ''True'', Error = []\<rparr>"

definition noHits :: "SearchResponse reply" where
  "noHits =
     Decoded \<lparr>Search = [], TotalResults = [], Response = ''False'', Error = ''Movie not found!''\<rparr>"

definition movieRecord :: "string \<Rightarrow> string \<Rightarrow> string \<Rightarrow> string \<Rightarrow> string \<Rightarrow> OMDbResponse" where
  "movieRecord title genre director actors rating =
     \<lparr>OMDbResponse.Title = title, Year = [], Genre = genre, Director = director,
      Actors = actors, Plot = [], ImdbRating = rating, ImdbID = [], Response = ''True'',
      Error = []\<rparr>"

definition noMovie :: "OMDbResponse reply" where
  "noMovie =
     Decoded \<lparr>OMDbResponse.Title = [], Year = [], Genre = [], Director = [], Actors = [],
       Plot = [], ImdbRating = [], ImdbID = [], Response = ''False'',
       Error = ''Movie not found!''\<rparr>"

text \<open>
  The upstream of the seed "The Matrix": the title lookup of "Matrix" resolves to
  the record of "The Matrix", and one title is found by the searches for both
  genres of the seed.
\<close>

definition theMatrix :: OMDbResponse where
  "theMatrix =
     movieRecord ''The Matrix'' ''Action, Sci-Fi'' ''Lana Wachowski, Lilly Wachowski''
       ''Keanu Reeves, Laurence Fishburne, Carrie-Anne Moss'' ''8.7''"

definition lastActionHero :: OMDbResponse where
  "lastActionHero =
     movieRecord ''Last Action Hero'' ''Action, Adventure, Comedy'' ''John McTiernan''
       ''Arnold Schwarzenegger'' ''6.5''"

definition sciFiAction :: OMDbResponse where
  "sciFiAction =
     movieRecord ''Sci-Fi Action Heroes'' ''Action, Sci-Fi'' ''Jane Doe'' ''John Doe'' ''6.1''"

definition matrixDetails :: "string \<Rightarrow> OMDbResponse reply" where
  "matrixDetails title =
     (if title = ''The Matrix'' \<or> title = ''Matrix'' then Decoded theMatrix
      else if title = ''Last Action Hero'' then Decoded lastActionHero
      else if title = ''Sci-Fi Action Heroes'' then Decoded sciFiAction
      else noMovie)"

definition matrixSearches :: "string \<Rightarrow> int option \<Rightarrow> SearchResponse reply" where
  "matrixSearches query page =
     (if query = ''Action'' \<and> page = Some 1
      then hitsPage [hit ''Last Action Hero'' ''tt0107362'',
                     hit ''THE MATRIX'' ''tt0133093'',
                     hit ''Sci-Fi Action Heroes'' ''tt0000001'',
                     hit ''Matrix'' ''tt0106062'']
      else if query = ''Sci-Fi'' \<and> page = Some 1
      then hitsPage [hit ''Sci-Fi Action Heroes'' ''tt0000001'']
      else noHits)"

definition matrixWorld :: "unit platform" where
  "matrixWorld = fixedPlatform insertionSort matrixSearches matrixDetails"

text \<open>An upstream whose every record carries the rating \<open>N/A\<close>.\<close>

definition unratedDetails :: "string \<Rightarrow> OMDbResponse reply" where
  "unratedDetails title = Decoded (movieRecord title ''Action'' ''Jane Doe'' ''John Doe'' ''N/A'')"

definition unratedWorld :: "unit platform" where
  "unratedWorld = fixedPlatform insertionSort matrixSearches unratedDetails"

text \<open>
  An upstream whose search for "action", in any letter case, finds two action
  movies on its first page and a third on its second; every title lookup returns
  the record of the title asked for.
\<close>

definition actionJackson :: OMDbResponse where
  "actionJackson =
     movieRecord ''Action Jackson'' ''Action, Comedy, Crime'' ''Craig R. Baxley''
       ''Carl Weathers'' ''5.4''"

definition missingInAction :: OMDbResponse where
  "missingInAction =
     movieRecord ''Missing in Action'' ''Action, Adventure, Drama'' ''Joseph Zito''
       ''Chuck Norris'' ''5.4''"

definition actionDetails :: "string \<Rightarrow> OMDbResponse reply" where
  "actionDetails title =
     (if title = ''Last Action Hero'' then Decoded lastActionHero
      else if title = ''Action Jackson'' then Decoded actionJackson
      else if title = ''Missing in Action'' then Decoded missingInAction
      else noMovie)"

definition actionSearches :: "string \<Rightarrow> int option \<Rightarrow> SearchResponse reply" where
  "actionSearches query page =
     (if ToLower query = ''action'' \<and> page = Some 1
      then hitsPage [hit ''Last Action Hero'' ''tt0107362'', hit ''Action Jackson'' ''tt0094612'']
      else if ToLower query = ''action'' \<and> page = Some 2
      then hitsPage [hit ''Missing in Action'' ''tt0087727'']
      else noHits)"

definition actionWorld :: "unit platform" where
  "actionWorld = fixedPlatform insertionSort actionSearches actionDetails"


text \<open>An upstream that cannot be reached, and one that knows no title.\<close>

definition unreachableWorld :: "unit platform" where
  "unreachableWorld =
     fixedPlatform insertionSort
       (\<lambda>query page. RequestFailed ''dial tcp: connection refused'')
       (\<lambda>title. RequestFailed ''dial tcp: connection refused'')"

definition emptyWorld :: "unit platform" where
  "emptyWorld = fixedPlatform insertionSort (\<lambda>query page. noHits) (\<lambda>title. noMovie)"

section \<open>The Term Expander\<close>




section \<open>The two example sorts keep the contract of \<open>sort.Slice\<close>\<close>

lemma mset_insertSorted: "mset (insertSorted lt x ys) = add_mset x (mset ys)"
  by (induction ys) auto

lemma mset_foldl_insertSorted:
  "mset (foldl (\<lambda>sorted x. insertSorted lt x sorted) acc xs) = mset acc + mset xs"
  by (induction xs arbitrary: acc) (auto simp: mset_insertSorted)

lemma mset_insertionSort: "mset (insertionSort lt xs) = mset xs"
  by (simp add: insertionSort_def mset_foldl_insertSorted)

lemma sorted_insertSorted:
  assumes irr: "\<forall>a\<in>S. \<not> lt a a"
    and trans: "\<forall>a\<in>S. \<forall>b\<in>S. \<forall>c\<in>S. lt a b \<and> lt b c \<longrightarrow> lt a c"
    and x: "x \<in> S" and ys: "set ys \<subseteq> S"
    and sorted: "sorted_wrt (\<lambda>a b. \<not> lt b a) ys"
  shows "sorted_wrt (\<lambda>a b. \<not> lt b a) (insertSorted lt x ys)"
  using ys sorted
proof (induction ys)
  case Nil
  then show ?case by simp
next
  case (Cons y ys)
  show ?case
  proof (cases "lt x y")
    case True
    have "\<not> lt y x" using True irr trans x Cons.prems(1) by (meson list.set_intros(1) subsetD)
    moreover have "\<not> lt z x" if "z \<in> set ys" for z
    proof
      assume "lt z x"
      then have "lt z y" using True trans x Cons.prems(1) that
        by (meson list.set_intros subsetD)
      with Cons.prems(2) that show False by simp
    qed
    ultimately show ?thesis using True Cons.prems(2) by auto
  next
    case False
    have "set (insertSorted lt x ys) = insert x (set ys)"
      by (metis mset_insertSorted set_mset_add_mset_insert set_mset_mset)
    then show ?thesis using False Cons by auto
  qed
qed

lemma sorted_foldl_insertSorted:
  assumes irr: "\<forall>a\<in>S. \<not> lt a a"
    and trans: "\<forall>a\<in>S. \<forall>b\<in>S. \<forall>c\<in>S. lt a b \<and> lt b c \<longrightarrow> lt a c"
  shows "set acc \<subseteq> S \<Longrightarrow> set xs \<subseteq> S \<Longrightarrow> sorted_wrt (\<lambda>a b. \<not> lt b a) acc
    \<Longrightarrow> sorted_wrt (\<lambda>a b. \<not> lt b a) (foldl (\<lambda>sorted x. insertSorted lt x sorted) acc xs)"
proof (induction xs arbitrary: acc)
  case Nil
  then show ?case by simp
next
  case (Cons x xs)
  have s: "sorted_wrt (\<lambda>a b. \<not> lt b a) (insertSorted lt x acc)"
    using sorted_insertSorted [OF irr trans _ Cons.prems(1) Cons.prems(3), of x] Cons.prems(2)
    by simp
  have "set (insertSorted lt x acc) = insert x (set acc)"
    by (metis mset_insertSorted set_mset_add_mset_insert set_mset_mset)
  then have "set (insertSorted lt x acc) \<subseteq> S" using Cons.prems by simp
  from Cons.IH [OF this _ s] Cons.prems(2) show ?case by simp
qed

lemma sorted_insertionSort:
  assumes "strictWeakOrder lt (set xs)"
  shows "sorted_wrt (\<lambda>a b. \<not> lt b a) (insertionSort lt xs)"
proof -
  have irr: "\<forall>a\<in>set xs. \<not> lt a a"
    using assms unfolding strictWeakOrder_def by (rule conjunct1)
  have trans: "\<forall>a\<in>set xs. \<forall>b\<in>set xs. \<forall>c\<in>set xs. lt a b \<and> lt b c \<longrightarrow> lt a c"
    using assms unfolding strictWeakOrder_def by (elim conjE)
  show ?thesis
    unfolding insertionSort_def
    by (rule sorted_foldl_insertSorted [OF irr trans]) simp_all
qed

lemma insertionSort_contract: "sortSliceContract insertionSort"
  unfolding sortSliceContract_def by (simp add: mset_insertionSort sorted_insertionSort)


section \<open>The Ranker\<close>



lemma sortSlice_fixedPlatform [simp]: "sortSlice (fixedPlatform srt s d) = srt"
  by (simp add: fixedPlatform_def)



section \<open>The Candidate Collector\<close>

text \<open>
  A property of the collected state that every append keeps is kept by the loops.
  The append happens only for a hit that is new and not the excluded title, with a
  record that the title lookup returned and whose rating is above 0.
\<close>

lemma excludingHits_preserves:
  assumes step: "\<And>a r d w0 w1. I a \<Longrightarrow> SearchResult.ImdbID r \<notin> movieSet a
      \<Longrightarrow> \<not> EqualFold (SearchResult.Title r) excludeTitle
      \<Longrightarrow> GetMovieByTitle P (SearchResult.Title r) w0 = (Inr d, w1)
      \<Longrightarrow> gt64 (ParseFloat P (OMDbResponse.ImdbRating d)) (Fin 0)
      \<Longrightarrow> I (append_movie a r d)"
    and "I a"
  shows "I (snd (fst (excludingHits P searchTerm searchType excludeTitle limit hs a w)))"
  using \<open>I a\<close>
proof (induction hs arbitrary: a w)
  case Nil
  then show ?case by simp
next
  case (Cons r rest)
  show ?case
  proof (cases "SearchResult.ImdbID r \<in> movieSet a \<or> EqualFold (SearchResult.Title r) excludeTitle")
    case True
    then show ?thesis using Cons by simp
  next
    case False
    obtain res w' where g: "GetMovieByTitle P (SearchResult.Title r) w = (res, w')"
      by (cases "GetMovieByTitle P (SearchResult.Title r) w")
    show ?thesis
    proof (cases res)
      case (Inl err)
      then show ?thesis using False g Cons by simp
    next
      case (Inr d)
      have app: "gt64 (ParseFloat P (OMDbResponse.ImdbRating d)) (Fin 0) \<Longrightarrow> I (append_movie a r d)"
        using step [OF Cons.prems _ _ g [unfolded Inr]] False by blast
      show ?thesis using False g Inr Cons app by (simp add: Let_def)
    qed
  qed
qed

lemma excludingPages_preserves:
  assumes step: "\<And>a r d w0 w1. I a \<Longrightarrow> SearchResult.ImdbID r \<notin> movieSet a
      \<Longrightarrow> \<not> EqualFold (SearchResult.Title r) excludeTitle
      \<Longrightarrow> GetMovieByTitle P (SearchResult.Title r) w0 = (Inr d, w1)
      \<Longrightarrow> gt64 (ParseFloat P (OMDbResponse.ImdbRating d)) (Fin 0)
      \<Longrightarrow> I (append_movie a r d)"
    and "I a"
  shows "I (fst (excludingPages P searchTerm searchType excludeTitle limit pages a w))"
  using \<open>I a\<close>
proof (induction pages arbitrary: a w)
  case Nil
  then show ?case by simp
next
  case (Cons page pages)
  obtain res w' where s: "SearchMovies P searchTerm page w = (res, w')"
    by (cases "SearchMovies P searchTerm page w")
  show ?case
  proof (cases res)
    case (Inl err)
    then show ?thesis using s Cons by simp
  next
    case (Inr sr)
    obtain flag a' w'' where h:
      "excludingHits P searchTerm searchType excludeTitle limit (Search sr) a w' = ((flag, a'), w'')"
      by (metis prod.exhaust)
    have "I a'"
      using excludingHits_preserves [of I excludeTitle P a searchTerm searchType limit "Search sr" w', OF step Cons.prems]
      by (simp add: h)
    then show ?thesis using s Inr h Cons by (cases flag) simp_all
  qed
qed

lemma excludingRun_preserves:
  assumes step: "\<And>a r d w0 w1. I a \<Longrightarrow> SearchResult.ImdbID r \<notin> movieSet a
      \<Longrightarrow> \<not> EqualFold (SearchResult.Title r) excludeTitle
      \<Longrightarrow> GetMovieByTitle P (SearchResult.Title r) w0 = (Inr d, w1)
      \<Longrightarrow> gt64 (ParseFloat P (OMDbResponse.ImdbRating d)) (Fin 0)
      \<Longrightarrow> I (append_movie a r d)"
    and "I noneCollected"
  shows "I (fst (excludingRun P searchTerm searchType excludeTitle limit w))"
  unfolding excludingRun_def
  by (rule excludingPages_preserves [of I, OF step \<open>I noneCollected\<close>])

lemma getMoviesExcluding_movies:
  "fst (getMoviesExcluding P searchTerm searchType excludeTitle limit w)
     = Inr (movies (fst (excludingRun P searchTerm searchType excludeTitle limit w)))"
  by (simp add: getMoviesExcluding_def split: prod.splits)

lemma movies_append_movie [simp]: "movies (append_movie a r d) = movies a @ [briefOf d]"
  by (simp add: append_movie_def)

lemma taken_append_movie [simp]: "taken (append_movie a r d) = taken a @ [r]"
  by (simp add: append_movie_def)

lemma movieSet_append_movie [simp]:
  "movieSet (append_movie a r d) = insert (SearchResult.ImdbID r) (movieSet a)"
  by (simp add: append_movie_def)

lemma noneCollected_simps [simp]:
  "movies noneCollected = []" "taken noneCollected = []" "movieSet noneCollected = {}"
  by (simp_all add: noneCollected_def)

text \<open>How many candidates the loops hold: never more than the larger of limit and 1.\<close>

lemma excludingHits_length:
  assumes "int (length (movies a)) < max limit 1"
    and "excludingHits P searchTerm searchType excludeTitle limit hs a w = ((flag, a'), w')"
  shows "if flag then int (length (movies a')) = max limit 1
         else int (length (movies a')) < max limit 1"
  using assms
proof (induction hs arbitrary: a w)
  case Nil
  then show ?case by auto
next
  case (Cons r rest)
  note IH = Cons.IH [OF Cons.prems(1)]
  show ?case
  proof (cases "SearchResult.ImdbID r \<in> movieSet a \<or> EqualFold (SearchResult.Title r) excludeTitle")
    case True
    then have "excludingHits P searchTerm searchType excludeTitle limit rest a w = ((flag, a'), w')"
      using Cons.prems(2) by simp
    then show ?thesis by (rule IH)
  next
    case False
    obtain res w1 where g: "GetMovieByTitle P (SearchResult.Title r) w = (res, w1)"
      by (cases "GetMovieByTitle P (SearchResult.Title r) w")
    show ?thesis
    proof (cases res)
      case (Inl err)
      then have "excludingHits P searchTerm searchType excludeTitle limit rest a w1 = ((flag, a'), w')"
        using False g Cons.prems(2) by simp
      then show ?thesis by (rule IH)
    next
      case (Inr d)
      show ?thesis
      proof (cases "OMDbResponse.Response d \<noteq> ''False'' \<and> matches searchType searchTerm d
          \<and> gt64 (ParseFloat P (OMDbResponse.ImdbRating d)) (Fin 0)")
        case skip: False
        then have "excludingHits P searchTerm searchType excludeTitle limit rest a w1 = ((flag, a'), w')"
          using False g Inr Cons.prems(2) by (auto split: if_splits)
        then show ?thesis by (rule IH)
      next
        case app: True
        show ?thesis
        proof (cases "int (length (movies (append_movie a r d))) \<ge> limit")
          case True
          then have "flag" and "a' = append_movie a r d"
            using False g Inr app Cons.prems(2) by (auto simp: Let_def)
          then show ?thesis using True Cons.prems(1) by auto
        next
          case nf: False
          then have "int (length (movies (append_movie a r d))) < max limit 1" by simp
          moreover have "excludingHits P searchTerm searchType excludeTitle limit rest
              (append_movie a r d) w1 = ((flag, a'), w')"
            using False g Inr app nf Cons.prems(2) by (auto simp: Let_def)
          ultimately show ?thesis by (rule Cons.IH)
        qed
      qed
    qed
  qed
qed

lemma excludingPages_length:
  assumes "int (length (movies a)) < max limit 1"
  shows "int (length (movies (fst (excludingPages P searchTerm searchType excludeTitle limit pages a w))))
          \<le> max limit 1"
  using assms
proof (induction pages arbitrary: a w)
  case Nil
  then show ?case by simp
next
  case (Cons page pages)
  obtain res w1 where s: "SearchMovies P searchTerm page w = (res, w1)"
    by (cases "SearchMovies P searchTerm page w")
  show ?case
  proof (cases res)
    case (Inl err)
    then show ?thesis using s Cons by simp
  next
    case (Inr sr)
    show ?thesis
    proof (cases "SearchResponse.Response sr = ''False''")
      case True
      then show ?thesis using s Inr Cons by simp
    next
      case found: False
      obtain flag a' w2 where h:
        "excludingHits P searchTerm searchType excludeTitle limit (Search sr) a w1 = ((flag, a'), w2)"
        by (metis prod.exhaust)
      note len = excludingHits_length [OF Cons.prems h]
      show ?thesis
      proof (cases flag)
        case True
        then show ?thesis using s Inr found h len by simp
      next
        case False
        then have "int (length (movies a')) < max limit 1" using len by simp
        from Cons.IH [OF this] show ?thesis using s Inr found h False by simp
      qed
    qed
  qed
qed

lemma getMoviesExcluding_length:
  "fst (getMoviesExcluding P searchTerm searchType excludeTitle limit w) = Inr ms
    \<Longrightarrow> int (length ms) \<le> max limit 1"
  using excludingPages_length [of noneCollected limit P searchTerm searchType excludeTitle "[1, 2]" w]
  by (simp add: getMoviesExcluding_movies excludingRun_def)

lemma getMoviesExcluding_Inr:
  "\<exists>ms. fst (getMoviesExcluding P searchTerm searchType excludeTitle limit w) = Inr ms"
  by (simp add: getMoviesExcluding_movies)

lemma facetLoop_length:
  "length facet \<le> 20 \<Longrightarrow> length (fst (facetLoop P searchType excludeTitle vs facet w)) \<le> 20"
proof (induction vs arbitrary: facet w)
  case Nil
  then show ?case by simp
next
  case (Cons v vs)
  show ?case
  proof (cases "int (length facet) \<ge> 20")
    case True
    then show ?thesis using Cons.prems by simp
  next
    case False
    obtain res w1 where g:
      "getMoviesExcluding P v searchType excludeTitle (20 - int (length facet)) w = (res, w1)"
      by (metis prod.exhaust)
    show ?thesis
    proof (cases res)
      case (Inl err)
      then show ?thesis using False g Cons by simp
    next
      case (Inr found)
      have "int (length found) \<le> max (20 - int (length facet)) 1"
        using getMoviesExcluding_length [of P v searchType excludeTitle "20 - int (length facet)" w found]
          g Inr by simp
      then have "length (facet @ found) \<le> 20" using False by simp
      from Cons.IH [OF this] show ?thesis using False g Inr by simp
    qed
  qed
qed

lemma length_sortMoviesByRating:
  "sortSliceContract (sortSlice P) \<Longrightarrow> length (sortMoviesByRating P ms) = length ms"
  unfolding sortSliceContract_def sortMoviesByRating_def by (metis size_mset)

lemma facets_lengths:
  assumes "sortSliceContract (sortSlice P)"
  shows "length (GenreBased (fst (facets P d w))) \<le> 20
         \<and> length (DirectorBased (fst (facets P d w))) \<le> 20
         \<and> length (ActorBased (fst (facets P d w))) \<le> 20"
  using facetLoop_length [of "[]" P]
  by (simp add: facets_def Let_def length_sortMoviesByRating [OF assms] split: prod.splits)
    (metis fst_conv)

text \<open>
  C7, as amended. For every limit of at least 1 the collector returns at most
  \<open>limit\<close> candidates, and with a \<open>sort.Slice\<close> that keeps its contract each of the
  three facet lists of a recommendation result has at most 20 entries.
\<close>

theorem limit_and_facet_caps:
  "(1 \<le> limit \<longrightarrow>
      (\<exists>ms. fst (getMoviesExcluding P searchTerm searchType excludeTitle limit w) = Inr ms
         \<and> int (length ms) \<le> limit))
   \<and> (sortSliceContract (sortSlice P) \<and> fst (GetRecommendations P favoriteMovie w) = Inr r \<longrightarrow>
        length (GenreBased (Recommendations r)) \<le> 20
        \<and> length (DirectorBased (Recommendations r)) \<le> 20
        \<and> length (ActorBased (Recommendations r)) \<le> 20)"
proof (intro conjI impI)
  assume "1 \<le> limit"
  then show "\<exists>ms. fst (getMoviesExcluding P searchTerm searchType excludeTitle limit w) = Inr ms
         \<and> int (length ms) \<le> limit"
    using getMoviesExcluding_length [of P searchTerm searchType excludeTitle limit w]
      getMoviesExcluding_Inr [of P searchTerm searchType excludeTitle limit w]
    by auto
next
  assume a: "sortSliceContract (sortSlice P) \<and> fst (GetRecommendations P favoriteMovie w) = Inr r"
  then have "\<exists>d w1. Recommendations r = fst (facets P d w1)"
    by (auto simp: GetRecommendations_def split: prod.splits sum.splits if_splits)
      (metis fst_conv)
  then obtain d w1 where "Recommendations r = fst (facets P d w1)" by blast
  then show "length (GenreBased (Recommendations r)) \<le> 20"
    and "length (DirectorBased (Recommendations r)) \<le> 20"
    and "length (ActorBased (Recommendations r)) \<le> 20"
    using facets_lengths [of P d w1] a by simp_all
qed

theorem limit_and_facet_caps_witness:
  "(1::int) \<le> 2
   \<and> fst (getMoviesExcluding matrixWorld ''Action'' ''genre'' ''The Matrix'' 2 ())
       = Inr [briefOf lastActionHero, briefOf sciFiAction]
   \<and> int (length [briefOf lastActionHero, briefOf sciFiAction]) \<le> 2
   \<and> sortSliceContract (sortSlice matrixWorld)
   \<and> fst (GetRecommendations matrixWorld ''The Matrix'' ())
       = Inr \<lparr>FavoriteMovie = ''The Matrix'',
              Recommendations =
                \<lparr>GenreBased = [briefOf theMatrix, briefOf lastActionHero,
                                briefOf sciFiAction, briefOf sciFiAction],
                 DirectorBased = [], ActorBased = []\<rparr>\<rparr>
   \<and> length [briefOf theMatrix, briefOf lastActionHero, briefOf sciFiAction, briefOf sciFiAction]
       \<le> 20"
proof -
  have c: "sortSliceContract (sortSlice matrixWorld)"
    by (simp add: matrixWorld_def insertionSort_contract)
  have 1: "fst (getMoviesExcluding matrixWorld ''Action'' ''genre'' ''The Matrix'' 2 ())
       = Inr [briefOf lastActionHero, briefOf sciFiAction]" by code_simp
  have 2: "fst (GetRecommendations matrixWorld ''The Matrix'' ())
       = Inr \<lparr>FavoriteMovie = ''The Matrix'',
              Recommendations =
                \<lparr>GenreBased = [briefOf theMatrix, briefOf lastActionHero,
                                briefOf sciFiAction, briefOf sciFiAction],
                 DirectorBased = [], ActorBased = []\<rparr>\<rparr>" by code_simp
  from limit_and_facet_caps [of 2 matrixWorld "''Action''" "''genre''" "''The Matrix''" "()"
      "''The Matrix''" "\<lparr>FavoriteMovie = ''The Matrix'',
              Recommendations =
                \<lparr>GenreBased = [briefOf theMatrix, briefOf lastActionHero,
                                briefOf sciFiAction, briefOf sciFiAction],
                 DirectorBased = [], ActorBased = []\<rparr>\<rparr>"] c 1 2
  show ?thesis by simp
qed

text \<open>
  C7 as stated fails for a limit below 1: the collector appends before it compares,
  so with limit 0 it returns one candidate.
\<close>

theorem limit_zero_returns_one:
  "fst (getMoviesExcluding matrixWorld ''Action'' ''genre'' ''The Matrix'' 0 ())
     = Inr [briefOf lastActionHero]
   \<and> \<not> int (length [briefOf lastActionHero]) \<le> 0"
  by code_simp

lemma genreHits_preserves:
  assumes step: "\<And>a r d w0 w1. I a \<Longrightarrow> SearchResult.ImdbID r \<notin> movieSet a
      \<Longrightarrow> GetMovieByTitle P (SearchResult.Title r) w0 = (Inr d, w1)
      \<Longrightarrow> gt64 (ParseFloat P (OMDbResponse.ImdbRating d)) (Fin 0)
      \<Longrightarrow> I (append_movie a r d)"
    and "I a"
  shows "I (fst (genreHits P genre limit hs a w))"
  using \<open>I a\<close>
proof (induction hs arbitrary: a w)
  case Nil
  then show ?case by simp
next
  case (Cons r rest)
  show ?case
  proof (cases "SearchResult.ImdbID r \<in> movieSet a")
    case True
    then show ?thesis using Cons by simp
  next
    case False
    obtain res w' where g: "GetMovieByTitle P (SearchResult.Title r) w = (res, w')"
      by (cases "GetMovieByTitle P (SearchResult.Title r) w")
    show ?thesis
    proof (cases res)
      case (Inl err)
      then show ?thesis using False g Cons by simp
    next
      case (Inr d)
      have app: "gt64 (ParseFloat P (OMDbResponse.ImdbRating d)) (Fin 0) \<Longrightarrow> I (append_movie a r d)"
        using step [OF Cons.prems _ g [unfolded Inr]] False by blast
      show ?thesis using False g Inr Cons app by (simp add: Let_def)
    qed
  qed
qed

lemma genrePages_preserves:
  assumes step: "\<And>a r d w0 w1. I a \<Longrightarrow> SearchResult.ImdbID r \<notin> movieSet a
      \<Longrightarrow> GetMovieByTitle P (SearchResult.Title r) w0 = (Inr d, w1)
      \<Longrightarrow> gt64 (ParseFloat P (OMDbResponse.ImdbRating d)) (Fin 0)
      \<Longrightarrow> I (append_movie a r d)"
    and "I a"
  shows "I (fst (genrePages P genre limit term pages a w))"
  using \<open>I a\<close>
proof (induction pages arbitrary: a w)
  case Nil
  then show ?case by simp
next
  case (Cons page pages)
  obtain res w' where s: "SearchMovies P term page w = (res, w')"
    by (cases "SearchMovies P term page w")
  show ?case
  proof (cases res)
    case (Inl err)
    then show ?thesis using s Cons by simp
  next
    case (Inr sr)
    obtain a' w'' where h: "genreHits P genre limit (Search sr) a w' = (a', w'')"
      by (metis prod.exhaust)
    have "I a'"
      using genreHits_preserves [of I P a genre limit "Search sr" w', OF step Cons.prems]
      by (simp add: h)
    then show ?thesis using s Inr h Cons by simp
  qed
qed

lemma genreSearch_preserves:
  assumes step: "\<And>a r d w0 w1. I a \<Longrightarrow> SearchResult.ImdbID r \<notin> movieSet a
      \<Longrightarrow> GetMovieByTitle P (SearchResult.Title r) w0 = (Inr d, w1)
      \<Longrightarrow> gt64 (ParseFloat P (OMDbResponse.ImdbRating d)) (Fin 0)
      \<Longrightarrow> I (append_movie a r d)"
    and "I a"
  shows "I (fst (genreSearch P genre limit terms a w))"
  using \<open>I a\<close>
proof (induction terms arbitrary: a w)
  case Nil
  then show ?case by simp
next
  case (Cons t terms)
  obtain a' w' where h: "genrePages P genre limit t [1, 2, 3] a w = (a', w')"
    by (metis prod.exhaust)
  have "I (fst (genrePages P genre limit t [1, 2, 3] a w))"
    by (rule genrePages_preserves [of I, OF step Cons.prems])
  then have "I a'" by (simp only: h fst_conv)
  then show ?case using h Cons.IH Cons.prems by (simp del: genrePages.simps)
qed

text \<open>What holds of every list the collector returns holds of a facet list.\<close>

lemma facetLoop_preserves:
  assumes each: "\<And>v lim w0 ms.
      fst (getMoviesExcluding P v searchType excludeTitle lim w0) = Inr ms \<Longrightarrow> \<forall>m\<in>set ms. Q m"
    and "\<forall>m\<in>set facet. Q m"
  shows "\<forall>m\<in>set (fst (facetLoop P searchType excludeTitle vs facet w)). Q m"
  using assms(2)
proof (induction vs arbitrary: facet w)
  case Nil
  then show ?case by simp
next
  case (Cons v vs)
  show ?case
  proof (cases "int (length facet) \<ge> 20")
    case True
    then show ?thesis using Cons.prems by simp
  next
    case False
    obtain res w1 where g:
      "getMoviesExcluding P v searchType excludeTitle (20 - int (length facet)) w = (res, w1)"
      by (metis prod.exhaust)
    show ?thesis
    proof (cases res)
      case (Inl err)
      then show ?thesis using False g Cons by simp
    next
      case (Inr found)
      have "\<forall>m\<in>set found. Q m"
        using each [of v "20 - int (length facet)" w found] g Inr by simp
      then have "\<forall>m\<in>set (facet @ found). Q m" using Cons.prems by auto
      from Cons.IH [OF this] show ?thesis using False g Inr by simp
    qed
  qed
qed

lemma ratingOf_briefOf [simp]: "ratingOf P (briefOf d) = ParseFloat P (OMDbResponse.ImdbRating d)"
  by (simp add: ratingOf_def briefOf_def)

lemma GetMovieByTitle_Inr:
  "GetMovieByTitle P title w = (Inr d, w') \<Longrightarrow> getDetails P title w = (Decoded d, w')"
  by (auto simp: GetMovieByTitle_def makeRequest_def split: prod.splits reply.splits if_splits)

lemma excludingRun_positive:
  "\<forall>m\<in>set (movies (fst (excludingRun P searchTerm searchType excludeTitle limit w))).
     gt64 (ratingOf P m) (Fin 0)"
  by (rule excludingRun_preserves [where I = "\<lambda>a. \<forall>m\<in>set (movies a). gt64 (ratingOf P m) (Fin 0)"])
    auto

lemma genreSearch_positive:
  "\<forall>m\<in>set (movies (fst (genreSearch P genre limit terms noneCollected w))).
     gt64 (ratingOf P m) (Fin 0)"
  by (rule genreSearch_preserves [where I = "\<lambda>a. \<forall>m\<in>set (movies a). gt64 (ratingOf P m) (Fin 0)"])
    auto

lemma excludingRun_unrated:
  fixes P :: "'w platform"
  assumes "\<forall>title w0 d w1. getDetails P title w0 = (Decoded d, w1)
      \<longrightarrow> \<not> gt64 (ParseFloat P (OMDbResponse.ImdbRating d)) (Fin 0)"
  shows "movies (fst (excludingRun P searchTerm searchType excludeTitle limit w)) = []"
proof (rule excludingRun_preserves [where I = "\<lambda>a. movies a = []"])
  fix a and r :: SearchResult and d w0 w1
  assume g: "GetMovieByTitle P (SearchResult.Title r) w0 = (Inr d, w1)"
    and pos: "gt64 (ParseFloat P (OMDbResponse.ImdbRating d)) (Fin 0)"
  have "getDetails P (SearchResult.Title r) w0 = (Decoded d, w1)"
    by (rule GetMovieByTitle_Inr [OF g])
  with assms have "\<not> gt64 (ParseFloat P (OMDbResponse.ImdbRating d)) (Fin 0)" by blast
  with pos show "movies (append_movie a r d) = []" by simp
next
  show "movies noneCollected = []" by simp
qed

text \<open>
  C8. The collector never fails, and every candidate it returns was built from a
  record whose rating parses to a number above 0; the same holds of the candidates
  that the genre listing collects. When no record of the upstream has such a rating
  (as when every rating is "N/A"), the collector returns the empty list and every
  facet list is empty.
\<close>

theorem candidates_have_positive_ratings:
  "(\<exists>ms. fst (getMoviesExcluding P searchTerm searchType excludeTitle limit w) = Inr ms
       \<and> (\<forall>m\<in>set ms. gt64 (ratingOf P m) (Fin 0)))
   \<and> (\<forall>m\<in>set (movies (fst (genreSearch P genre limit' terms noneCollected w))).
         gt64 (ratingOf P m) (Fin 0))
   \<and> ((\<forall>title w0 d w1. getDetails P title w0 = (Decoded d, w1)
          \<longrightarrow> \<not> gt64 (ParseFloat P (OMDbResponse.ImdbRating d)) (Fin 0))
        \<longrightarrow> fst (getMoviesExcluding P searchTerm searchType excludeTitle limit w) = Inr []
          \<and> fst (facetLoop P searchType excludeTitle vs [] w) = [])"
proof (intro conjI impI)
  show "\<exists>ms. fst (getMoviesExcluding P searchTerm searchType excludeTitle limit w) = Inr ms
       \<and> (\<forall>m\<in>set ms. gt64 (ratingOf P m) (Fin 0))"
    using excludingRun_positive [of P searchTerm searchType excludeTitle limit w]
    by (simp add: getMoviesExcluding_movies)
next
  show "\<forall>m\<in>set (movies (fst (genreSearch P genre limit' terms noneCollected w))).
         gt64 (ratingOf P m) (Fin 0)"
    by (rule genreSearch_positive)
next
  assume u: "\<forall>title w0 d w1. getDetails P title w0 = (Decoded d, w1)
          \<longrightarrow> \<not> gt64 (ParseFloat P (OMDbResponse.ImdbRating d)) (Fin 0)"
  show "fst (getMoviesExcluding P searchTerm searchType excludeTitle limit w) = Inr []"
    by (simp add: getMoviesExcluding_movies excludingRun_unrated [OF u])
  have "\<forall>m\<in>set (fst (facetLoop P searchType excludeTitle vs [] w)). False"
    by (rule facetLoop_preserves) (simp_all add: getMoviesExcluding_movies excludingRun_unrated [OF u])
  then show "fst (facetLoop P searchType excludeTitle vs [] w) = []" by auto
qed

lemma unratedWorld_unrated:
  "getDetails unratedWorld title w0 = (Decoded d, w1)
    \<Longrightarrow> \<not> gt64 (ParseFloat unratedWorld (OMDbResponse.ImdbRating d)) (Fin 0)"
proof -
  have "decimalRating ''N/A'' = Fin 0" by code_simp
  moreover assume "getDetails unratedWorld title w0 = (Decoded d, w1)"
  ultimately show ?thesis
    by (auto simp: unratedWorld_def fixedPlatform_def unratedDetails_def movieRecord_def)
qed

theorem candidates_have_positive_ratings_witness:
  "fst (getMoviesExcluding matrixWorld ''Action'' ''genre'' ''The Matrix'' 1 ())
     = Inr [briefOf lastActionHero]
   \<and> gt64 (ratingOf matrixWorld (briefOf lastActionHero)) (Fin 0)
   \<and> movies (fst (genreSearch actionWorld ''action'' 1 [''action''] noneCollected ()))
     = [briefOf lastActionHero, briefOf actionJackson, briefOf missingInAction]
   \<and> gt64 (ratingOf actionWorld (briefOf actionJackson)) (Fin 0)
   \<and> ParseFloat unratedWorld ''N/A'' = Fin 0
   \<and> fst (getMoviesExcluding unratedWorld ''Action'' ''genre'' ''The Matrix'' 20 ()) = Inr []
   \<and> fst (facetLoop unratedWorld ''genre'' ''The Matrix'' [''Action'', ''Sci-Fi''] [] ()) = []"
proof -
  have 1: "fst (getMoviesExcluding matrixWorld ''Action'' ''genre'' ''The Matrix'' 1 ())
     = Inr [briefOf lastActionHero]" by code_simp
  have 2: "movies (fst (genreSearch actionWorld ''action'' 1 [''action''] noneCollected ()))
     = [briefOf lastActionHero, briefOf actionJackson, briefOf missingInAction]" by code_simp
  have 3: "ParseFloat unratedWorld ''N/A'' = Fin 0" by code_simp
  have u: "\<forall>title w0 d w1. getDetails unratedWorld title w0 = (Decoded d, w1)
          \<longrightarrow> \<not> gt64 (ParseFloat unratedWorld (OMDbResponse.ImdbRating d)) (Fin 0)"
    using unratedWorld_unrated by blast
  from candidates_have_positive_ratings
    [of matrixWorld "''Action''" "''genre''" "''The Matrix''" 1 "()" "''action''" 1 "[''action'']" "[]"]
    1
  have a: "gt64 (ratingOf matrixWorld (briefOf lastActionHero)) (Fin 0)"
    by simp
  from candidates_have_positive_ratings
    [of actionWorld "''Action''" "''genre''" "''The Matrix''" 1 "()" "''action''" 1 "[''action'']" "[]"]
    2
  have b: "gt64 (ratingOf actionWorld (briefOf actionJackson)) (Fin 0)"
    by simp
  from candidates_have_positive_ratings
    [of unratedWorld "''Action''" "''genre''" "''The Matrix''" 20 "()" "''action''" 1 "[''action'']"
      "[''Action'', ''Sci-Fi'']"] u
  have c: "fst (getMoviesExcluding unratedWorld ''Action'' ''genre'' ''The Matrix'' 20 ()) = Inr []
     \<and> fst (facetLoop unratedWorld ''genre'' ''The Matrix'' [''Action'', ''Sci-Fi''] [] ()) = []"
    by blast
  from 1 2 3 a b c show ?thesis by blast
qed



lemma Title_briefOf [simp]: "MovieBrief.Title (briefOf d) = OMDbResponse.Title d"
  by (simp add: briefOf_def)










section \<open>The genre listing\<close>

text \<open>
  C10, as amended. Whatever the upstream does, \<open>GetMoviesByGenre\<close> never returns
  an error, and for every limit of at least 0 it returns a list with a nil error.
\<close>

theorem GetMoviesByGenre_never_errors:
  "(\<forall>msg. fst (GetMoviesByGenre P genre limit w) \<noteq> Inl (Errorf msg))
   \<and> (0 \<le> limit \<longrightarrow> (\<exists>ms. fst (GetMoviesByGenre P genre limit w) = Inr ms))"
  by (simp add: GetMoviesByGenre_def Let_def split: prod.splits)

theorem GetMoviesByGenre_never_errors_witness:
  "(0::int) \<le> 15
   \<and> fst (GetMoviesByGenre unreachableWorld ''Action'' 15 ()) = Inr []
   \<and> fst (GetMoviesByGenre unreachableWorld ''Action'' 15 ()) \<noteq> Inl (Errorf ''failed to make request'')"
proof -
  have "fst (GetMoviesByGenre unreachableWorld ''Action'' 15 ()) = Inr []" by code_simp
  with GetMoviesByGenre_never_errors [of unreachableWorld "''Action''" 15 "()"]
  show ?thesis by simp
qed

text \<open>
  C10 as stated fails for a negative limit: no term is searched, the empty slice is
  longer than the limit, and \<open>allMovies[:limit]\<close> panics.
\<close>

theorem GetMoviesByGenre_negative_limit_panics:
  "fst (GetMoviesByGenre unreachableWorld ''Action'' (- 1) ())
     = Inl (Panic ''slice bounds out of range'')"
  by code_simp

text \<open>
  C6 at the failing input: genre "action" with limit 1, so that collecting should
  stop at 2 candidates. The second candidate is found on page 1 of the first term;
  the service still searches pages 2 and 3 of that term, fetches the hit of page 2
  and collects it as a third candidate.
\<close>

theorem GetMoviesByGenre_searches_after_cap:
  "GetMoviesByGenre (traced actionWorld) ''action'' 1 ((), [])
     = (Inr [briefOf lastActionHero],
        (), [SearchCall ''action'' (Some 1), DetailsCall ''Last Action Hero'',
             DetailsCall ''Action Jackson'', SearchCall ''action'' (Some 2),
             DetailsCall ''Missing in Action'', SearchCall ''action'' (Some 3)])
   \<and> movies (fst (genreSearch actionWorld ''action'' 1 (getGenreSearchTerms ''action'')
                    noneCollected ()))
     = [briefOf lastActionHero, briefOf actionJackson, briefOf missingInAction]
   \<and> int64 (1 * 2) = 2"
  by code_simp

section \<open>The seed lookup\<close>

text \<open>
  C4 at the failing input: the upstream cannot be reached. The recommendation
  operation reports the same error as for an upstream that does not know the title,
  and its handler answers 404 for both; the movie-details handler, on the same
  upstream, answers 500 for the first and 404 for the second.
\<close>

theorem GetRecommendations_conflates_failures:
  "fst (GetRecommendations unreachableWorld ''The Matrix'' ())
     = Inl (Errorf ''favorite movie not found: The Matrix'')
   \<and> fst (GetRecommendations emptyWorld ''The Matrix'' ())
     = Inl (Errorf ''favorite movie not found: The Matrix'')
   \<and> fst (GetRecommendations_handler unreachableWorld ''The Matrix'' ()) = 404
   \<and> fst (GetRecommendations_handler emptyWorld ''The Matrix'' ()) = 404
   \<and> fst (GetMovieByTitle unreachableWorld ''The Matrix'' ())
     = Inl (Errorf ''failed to make request: dial tcp: connection refused'')
   \<and> fst (GetMovieByTitle emptyWorld ''The Matrix'' ())
     = Inl (Errorf ''OMDb API error: Movie not found!'')
   \<and> fst (GetMovieDetails_handler unreachableWorld ''The Matrix'' ()) = 500
   \<and> fst (GetMovieDetails_handler emptyWorld ''The Matrix'' ()) = 404"
  by code_simp

section \<open>Duplicates in a facet list\<close>

text \<open>
  C2 at the failing input: the seed "The Matrix" has two genres, and the searches
  for both find the hit \<open>tt0000001\<close>. Each collector call starts with an empty
  \<open>movieSet\<close>, so both take that hit, and the genre-based list holds its MovieBrief
  twice.
\<close>

theorem facet_list_repeats_a_hit:
  "taken (fst (excludingRun matrixWorld ''Action'' ''genre'' ''The Matrix'' 20 ()))
     = [hit ''Last Action Hero'' ''tt0107362'', hit ''Sci-Fi Action Heroes'' ''tt0000001'',
        hit ''Matrix'' ''tt0106062'']
   \<and> taken (fst (excludingRun matrixWorld ''Sci-Fi'' ''genre'' ''The Matrix'' 17 ()))
     = [hit ''Sci-Fi Action Heroes'' ''tt0000001'']
   \<and> fst (facetLoop matrixWorld ''genre'' ''The Matrix'' (Split ''Action, Sci-Fi'' '', '') [] ())
     = [briefOf lastActionHero, briefOf sciFiAction, briefOf theMatrix, briefOf sciFiAction]
   \<and> fst (GetRecommendations matrixWorld ''The Matrix'' ())
     = Inr \<lparr>FavoriteMovie = ''The Matrix'',
            Recommendations =
              \<lparr>GenreBased = [briefOf theMatrix, briefOf lastActionHero,
                              briefOf sciFiAction, briefOf sciFiAction],
               DirectorBased = [], ActorBased = []\<rparr>\<rparr>
   \<and> \<not> distinct [briefOf theMatrix, briefOf lastActionHero, briefOf sciFiAction, briefOf sciFiAction]"
  by code_simp

text \<open>
  Within one collector call the hits taken have pairwise distinct identifiers, one
  hit for each MovieBrief returned.
\<close>

lemma excludingRun_taken_distinct:
  "distinct (map SearchResult.ImdbID (taken (fst (excludingRun P searchTerm searchType excludeTitle limit w))))
   \<and> length (taken (fst (excludingRun P searchTerm searchType excludeTitle limit w)))
     = length (movies (fst (excludingRun P searchTerm searchType excludeTitle limit w)))"
proof -
  let ?I = "\<lambda>a. movieSet a = set (map SearchResult.ImdbID (taken a))
      \<and> distinct (map SearchResult.ImdbID (taken a)) \<and> length (taken a) = length (movies a)"
  have "?I (fst (excludingRun P searchTerm searchType excludeTitle limit w))"
    by (rule excludingRun_preserves [where I = ?I]) auto
  then show ?thesis by simp
qed

text \<open>Whatever makes the seed lookup fail, the error of the operation is the same.\<close>

lemma GetRecommendations_error_text:
  "fst (GetRecommendations P favoriteMovie w) = Inl e
    \<Longrightarrow> e = Errorf (''favorite movie not found: '' @ favoriteMovie)"
  by (auto simp: GetRecommendations_def split: prod.splits sum.splits if_splits)

section \<open>Which searches the facet loops issue\<close>

lemma traced_simps [simp]:
  "ParseFloat (traced P) = ParseFloat P"
  "sortSlice (traced P) = sortSlice P"
  "getDetails (traced P) title (w, cs)
     = (case getDetails P title w of (r, w') \<Rightarrow> (r, (w', cs @ [DetailsCall title])))"
  "getSearch (traced P) query page (w, cs)
     = (case getSearch P query page w of (r, w') \<Rightarrow> (r, (w', cs @ [SearchCall query page])))"
  by (simp_all add: traced_def)













end
